theory Spec2Isabelle
  imports Main
begin

section \<open>Data model (accounts/models.py)\<close>

text \<open>
  Primary keys and clock readings are natural numbers. A clock reading stands for the
  value of \<^verbatim>\<open>timezone.now()\<close> in the request that is being served; the readings taken
  within one request are identified.
\<close>

type_synonym pk = nat
type_synonym timestamp = nat

text \<open>
  The columns of \<^verbatim>\<open>User\<close> that the account and permission workflow reads or writes.
  \<^verbatim>\<open>user_type\<close> is a \<^verbatim>\<open>CharField\<close>, hence a string: the code compares it with
  \<^verbatim>\<open>'super_admin'\<close>, \<^verbatim>\<open>'admin'\<close>, \<^verbatim>\<open>'agent'\<close>. \<^verbatim>\<open>admin_permissions\<close> is the JSON
  object of permission bits, a dictionary from permission names to booleans.
\<close>

record user =
  username :: string
  user_type :: string
  is_active :: bool
  is_verified :: bool
  verification_date :: "timestamp option"
  is_admin_active :: bool
  admin_permissions :: "string \<rightharpoonup> bool"

text \<open>Python's \<^verbatim>\<open>d.get(key, default)\<close>.\<close>

definition dict_get :: "('k \<rightharpoonup> 'v) \<Rightarrow> 'k \<Rightarrow> 'v \<Rightarrow> 'v" where
  "dict_get d k dflt = (case d k of None \<Rightarrow> dflt | Some v \<Rightarrow> v)"

section \<open>Authorization gate (User.is_super_admin ... User.can_manage_admins)\<close>

definition is_super_admin :: "user \<Rightarrow> bool" where
  "is_super_admin u \<longleftrightarrow> user_type u = ''super_admin'' \<and> is_admin_active u"

definition is_normal_admin :: "user \<Rightarrow> bool" where
  "is_normal_admin u \<longleftrightarrow> user_type u = ''admin'' \<and> is_admin_active u"

definition can_manage_properties :: "user \<Rightarrow> bool" where
  "can_manage_properties u =
     (if user_type u = ''super_admin'' then True
      else is_admin_active u \<and> dict_get (admin_permissions u) ''manage_properties'' False)"

definition can_manage_users :: "user \<Rightarrow> bool" where
  "can_manage_users u =
     (if user_type u = ''super_admin'' then True
      else is_admin_active u \<and> dict_get (admin_permissions u) ''manage_users'' False)"

definition can_manage_premium :: "user \<Rightarrow> bool" where
  "can_manage_premium u =
     (if user_type u = ''super_admin'' then True
      else is_admin_active u \<and> dict_get (admin_permissions u) ''manage_premium'' False)"

definition can_manage_payments :: "user \<Rightarrow> bool" where
  "can_manage_payments u =
     (if user_type u = ''super_admin'' then True
      else is_admin_active u \<and> dict_get (admin_permissions u) ''manage_payments'' False)"

definition can_manage_system :: "user \<Rightarrow> bool" where
  "can_manage_system u =
     (if user_type u = ''super_admin'' then True
      else is_admin_active u \<and> dict_get (admin_permissions u) ''system_settings'' False)"

definition can_view_logs :: "user \<Rightarrow> bool" where
  "can_view_logs u =
     (if user_type u = ''super_admin'' then True
      else is_admin_active u \<and> dict_get (admin_permissions u) ''view_logs'' False)"

definition can_delete_data :: "user \<Rightarrow> bool" where
  "can_delete_data u =
     (if user_type u = ''super_admin'' then True
      else is_admin_active u \<and> dict_get (admin_permissions u) ''delete_data'' False)"

definition can_export_data :: "user \<Rightarrow> bool" where
  "can_export_data u =
     (if user_type u = ''super_admin'' then True
      else is_admin_active u \<and> dict_get (admin_permissions u) ''export_data'' False)"

definition can_manage_content :: "user \<Rightarrow> bool" where
  "can_manage_content u =
     (if user_type u = ''super_admin'' then True
      else is_admin_active u \<and> dict_get (admin_permissions u) ''manage_content'' False)"

definition can_manage_admins :: "user \<Rightarrow> bool" where
  "can_manage_admins u \<longleftrightarrow> user_type u = ''super_admin''"

text \<open>
  The ten capabilities of the specification, the key each one has in the permission
  dictionary, and the predicate method of \<^verbatim>\<open>User\<close> that decides it. \<open>can\<close> only
  dispatches to the method the source defines for the capability.
\<close>

datatype capability =
    Manage_users | Manage_properties | Manage_payments | Manage_premium | Manage_admins
  | System_settings | View_logs | Delete_data | Export_data | Manage_content

fun capability_key :: "capability \<Rightarrow> string" where
  "capability_key Manage_users = ''manage_users''"
| "capability_key Manage_properties = ''manage_properties''"
| "capability_key Manage_payments = ''manage_payments''"
| "capability_key Manage_premium = ''manage_premium''"
| "capability_key Manage_admins = ''manage_admins''"
| "capability_key System_settings = ''system_settings''"
| "capability_key View_logs = ''view_logs''"
| "capability_key Delete_data = ''delete_data''"
| "capability_key Export_data = ''export_data''"
| "capability_key Manage_content = ''manage_content''"

fun can :: "user \<Rightarrow> capability \<Rightarrow> bool" where
  "can u Manage_users = can_manage_users u"
| "can u Manage_properties = can_manage_properties u"
| "can u Manage_payments = can_manage_payments u"
| "can u Manage_premium = can_manage_premium u"
| "can u Manage_admins = can_manage_admins u"
| "can u System_settings = can_manage_system u"
| "can u View_logs = can_view_logs u"
| "can u Delete_data = can_delete_data u"
| "can u Export_data = can_export_data u"
| "can u Manage_content = can_manage_content u"

text \<open>
  The contract of the gate as the specification words it (section 4.1), for comparison
  with \<open>can\<close>: super_admin always; otherwise an active admin by the permission
  dictionary; otherwise never; manage_admins for super_admin only.
\<close>

definition can_spec :: "user \<Rightarrow> capability \<Rightarrow> bool" where
  "can_spec u c =
     (if user_type u = ''super_admin'' then True
      else if c = Manage_admins then False
      else if user_type u = ''admin'' \<and> is_admin_active u
        then admin_permissions u (capability_key c) = Some True
      else False)"

text \<open>
  A broker account that still carries an activated admin flag and a granted permission
  bit, as an admin account has after \<^verbatim>\<open>CustomUserAdmin.make_brokers\<close> has rewritten its
  \<^verbatim>\<open>user_type\<close> (that action updates no other column).
\<close>

definition demoted_admin :: user where
  "demoted_admin =
     \<lparr>username = ''ram'', user_type = ''broker'', is_active = True, is_verified = True,
      verification_date = None, is_admin_active = True,
      admin_permissions = [''manage_users'' \<mapsto> True]\<rparr>"

section \<open>Storage\<close>

text \<open>
  A loaded model instance is its primary key together with its column values. The rows of
  \<^verbatim>\<open>RealEstateAgentApplication\<close>, \<^verbatim>\<open>AdminActivityLog\<close>, \<^verbatim>\<open>AdminNotification\<close>,
  \<^verbatim>\<open>UserActivity\<close> and \<^verbatim>\<open>AdminPermissionRequest\<close> carry the columns that the workflow
  assigns or tests; the remaining columns are never assigned by the functions below.
\<close>

record agent_application =
  applicant :: pk
  app_status :: string
  reviewed_at :: "timestamp option"
  reviewed_by :: "pk option"
  admin_feedback :: string
  requested_documents :: string

record admin_activity_log =
  log_admin :: pk
  action_type :: string
  description :: string
  target_model :: "string option"
  target_id :: "pk option"
  ip_address :: "string option"
  is_high_risk :: bool

record admin_notification =
  title :: string
  message :: string
  notification_type :: string
  priority :: string
  related_admin :: pk

record user_activity =
  activity_user :: pk
  activity_type :: string
  activity_title :: string
  activity_description :: string

record permission_request =
  requesting_admin :: pk
  permission_type :: string
  reason :: string
  justification :: string
  req_status :: string
  req_reviewed_at :: "timestamp option"
  req_reviewed_by :: "pk option"
  review_notes :: string
  granted_at :: "timestamp option"

text \<open>
  The database. Users and applications are looked up by primary key only, so their tables
  are maps; permission requests are searched by column values, so their table is a list of
  instances. The log, notification and activity tables are only ever appended to.
  \<open>users_seq\<close> is the key the database gives the next inserted user.
\<close>

record db =
  users :: "pk \<rightharpoonup> user"
  users_seq :: pk
  applications :: "pk \<rightharpoonup> agent_application"
  permission_requests :: "(pk \<times> permission_request) list"
  activity_logs :: "admin_activity_log list"
  admin_notifications :: "admin_notification list"
  user_activities :: "user_activity list"

text \<open>
  The exceptions that can leave a function. A function that can raise after it has already
  written returns the error together with the database as it stands at that moment: each
  \<^verbatim>\<open>save()\<close> commits on its own (Django's autocommit; no function of the workflow opens
  a transaction).
\<close>

datatype error = IntegrityError | DoesNotExist | KeyError

section \<open>Audit log writer (AdminActivityLog.save, log_admin_activity)\<close>

definition high_risk_actions :: "string list" where
  "high_risk_actions = [''delete'', ''ban'', ''refund'', ''permission'']"

text \<open>
  \<^verbatim>\<open>AdminActivityLog.save\<close>: the derivation of the flag, then \<^verbatim>\<open>super().save()\<close>
  writes the row. \<^verbatim>\<open>ip_address\<close> is declared without \<^verbatim>\<open>null=True\<close> and without a
  default, so a row that carries no address violates the column's NOT NULL constraint: the
  INSERT raises \<^verbatim>\<open>IntegrityError\<close> and nothing is stored.
\<close>

definition AdminActivityLog_save :: "admin_activity_log \<Rightarrow> db \<Rightarrow> error + db" where
  "AdminActivityLog_save self st =
     (let self' = (if action_type self \<in> set high_risk_actions
                   then self\<lparr>is_high_risk := True\<rparr> else self)
      in case ip_address self' of
           None \<Rightarrow> Inl IntegrityError
         | Some a \<Rightarrow> Inr (st\<lparr>activity_logs := activity_logs st @ [self']\<rparr>))"

text \<open>
  The request as the views read it: the logged-in user (\<open>None\<close> for an anonymous
  visitor), the HTTP verb, the form fields and the peer address.
\<close>

record request =
  session_user :: "pk option"
  http_method :: string
  POST :: "string \<rightharpoonup> string"
  remote_addr :: "string option"

text \<open>
  \<^verbatim>\<open>log_admin_activity(request, action_type, description, target_model=None,
  target_id=None, is_high_risk=False)\<close>, called by views that have passed their gate, so
  that \<^verbatim>\<open>request.user\<close> is the account with key \<open>admin\<close>. An omitted \<^verbatim>\<open>is_high_risk\<close>
  is \<open>None\<close> here and takes the default. The address is
  \<^verbatim>\<open>request.META.get('REMOTE_ADDR')\<close>.
\<close>

definition log_admin_activity ::
  "request \<Rightarrow> pk \<Rightarrow> string \<Rightarrow> string \<Rightarrow> string option \<Rightarrow> pk option \<Rightarrow> bool option \<Rightarrow> db
     \<Rightarrow> error + db" where
  "log_admin_activity req admin act descr tmodel tid risk st =
     AdminActivityLog_save
       \<lparr>log_admin = admin, action_type = act, description = descr, target_model = tmodel,
        target_id = tid, ip_address = remote_addr req,
        is_high_risk = (case risk of None \<Rightarrow> False | Some b \<Rightarrow> b)\<rparr> st"

section \<open>Agent application review (accounts/admin.py)\<close>

text \<open>
  \<^verbatim>\<open>RealEstateAgentApplicationAdmin.get_queryset\<close> restricted to the rows the operator
  selected: every selected key once, with its application row and, by
  \<^verbatim>\<open>select_related('applicant')\<close>, the applicant's row joined in.
\<close>

definition get_queryset :: "db \<Rightarrow> pk list \<Rightarrow> (pk \<times> agent_application \<times> user) list" where
  "get_queryset st ids =
     List.map_filter
       (\<lambda>k. case applications st k of
              None \<Rightarrow> None
            | Some a \<Rightarrow> (case users st (applicant a) of
                          None \<Rightarrow> None
                        | Some u \<Rightarrow> Some (k, a, u)))
       (remdups ids)"

text \<open>
  The loop of \<^verbatim>\<open>approve_applications\<close> over the filtered queryset: the application is
  saved, then its applicant, and the counter is incremented.
\<close>

fun approve_each ::
  "pk \<Rightarrow> timestamp \<Rightarrow> (pk \<times> agent_application \<times> user) list \<Rightarrow> nat \<times> db \<Rightarrow> nat \<times> db" where
  "approve_each reviewer now [] (updated, st) = (updated, st)"
| "approve_each reviewer now ((k, application, owner) # rest) (updated, st) =
     (let application' = application\<lparr>app_status := ''approved'', reviewed_at := Some now,
                                      reviewed_by := Some reviewer\<rparr>;
          st1 = st\<lparr>applications := (applications st)(k \<mapsto> application')\<rparr>;
          owner' = owner\<lparr>is_active := True, is_verified := True,
                          verification_date := Some now\<rparr>;
          st2 = st1\<lparr>users := (users st1)(applicant application' \<mapsto> owner')\<rparr>
      in approve_each reviewer now rest (updated + 1, st2))"

text \<open>
  \<^verbatim>\<open>approve_applications(self, request, queryset)\<close>. The result is the counter
  \<^verbatim>\<open>updated\<close>, which the action reports through \<^verbatim>\<open>message_user\<close>, and the database.
\<close>

definition approve_applications :: "pk \<Rightarrow> timestamp \<Rightarrow> pk list \<Rightarrow> db \<Rightarrow> nat \<times> db" where
  "approve_applications reviewer now ids st =
     approve_each reviewer now
       (filter (\<lambda>(k, a, u). app_status a \<in> set [''pending'', ''under_review''])
          (get_queryset st ids))
       (0, st)"

text \<open>
  \<^verbatim>\<open>queryset.filter(status__in=...).update(...)\<close>: one UPDATE statement over the selected
  rows whose status is listed; it returns the number of rows it changed and touches no
  other table.
\<close>

definition filter_update ::
  "string list \<Rightarrow> (agent_application \<Rightarrow> agent_application) \<Rightarrow> pk list \<Rightarrow> db \<Rightarrow> nat \<times> db" where
  "filter_update statuses assign ids st =
     (let hit = (\<lambda>k. k \<in> set ids \<and>
                   (case applications st k of
                      None \<Rightarrow> False
                    | Some a \<Rightarrow> app_status a \<in> set statuses))
      in (length (filter hit (remdups ids)),
          st\<lparr>applications :=
               (\<lambda>k. if hit k then map_option assign (applications st k)
                    else applications st k)\<rparr>))"

definition reject_applications :: "pk \<Rightarrow> timestamp \<Rightarrow> pk list \<Rightarrow> db \<Rightarrow> nat \<times> db" where
  "reject_applications reviewer now ids st =
     filter_update [''pending'', ''under_review'', ''needs_info'']
       (\<lambda>a. a\<lparr>app_status := ''rejected'', reviewed_at := Some now,
              reviewed_by := Some reviewer\<rparr>)
       ids st"

definition request_more_info :: "pk \<Rightarrow> timestamp \<Rightarrow> pk list \<Rightarrow> db \<Rightarrow> nat \<times> db" where
  "request_more_info reviewer now ids st =
     filter_update [''pending'', ''under_review'']
       (\<lambda>a. a\<lparr>app_status := ''needs_info'', reviewed_at := Some now,
              reviewed_by := Some reviewer\<rparr>)
       ids st"

text \<open>
  \<^verbatim>\<open>save_model(self, request, obj, form, change)\<close>, the single-application path of the
  admin form. \<open>obj\<close> is the instance with key \<open>k\<close> as the form has filled it in (its
  status is already the chosen one), \<open>changed_data\<close> is \<^verbatim>\<open>form.changed_data\<close>, and
  \<^verbatim>\<open>obj.applicant\<close> is read from the users table. The last step,
  \<^verbatim>\<open>super().save_model\<close>, writes \<open>obj\<close>.
\<close>

definition save_model ::
  "pk \<times> user \<Rightarrow> pk \<times> agent_application \<Rightarrow> string list \<Rightarrow> bool \<Rightarrow> timestamp \<Rightarrow> db
     \<Rightarrow> (error \<times> db) + db" where
  "save_model request_user inst changed_data change now st =
     (case inst of (k, obj) \<Rightarrow>
       if change \<and> ''status'' \<in> set changed_data \<and> app_status obj \<noteq> ''pending'' then
         (let obj1 = obj\<lparr>reviewed_at := Some now, reviewed_by := Some (fst request_user)\<rparr>
          in if app_status obj1 = ''approved'' then
               (case users st (applicant obj1) of
                  None \<Rightarrow> Inl (DoesNotExist, st)
                | Some owner \<Rightarrow>
                    (let st1 = st\<lparr>users := (users st)(applicant obj1 \<mapsto>
                                   owner\<lparr>is_active := True, is_verified := True,
                                         verification_date := Some now\<rparr>)\<rparr>;
                         st2 = st1\<lparr>user_activities := user_activities st1 @
                                   [\<lparr>activity_user = applicant obj1,
                                     activity_type = ''register'',
                                     activity_title = ''Real Estate Agent Application Approved'',
                                     activity_description =
                                       ''Application approved by '' @ username (snd request_user)\<rparr>]\<rparr>
                     in Inr (st2\<lparr>applications := (applications st2)(k \<mapsto> obj1)\<rparr>)))
             else if app_status obj1 \<in> set [''rejected'', ''needs_info''] then
               (case users st (applicant obj1) of
                  None \<Rightarrow> Inl (DoesNotExist, st)
                | Some owner \<Rightarrow>
                    (let st1 = st\<lparr>users := (users st)(applicant obj1 \<mapsto>
                                   owner\<lparr>is_active := False, is_verified := False\<rparr>)\<rparr>
                     in Inr (st1\<lparr>applications := (applications st1)(k \<mapsto> obj1)\<rparr>)))
             else Inr (st\<lparr>applications := (applications st)(k \<mapsto> obj1)\<rparr>))
       else Inr (st\<lparr>applications := (applications st)(k \<mapsto> obj)\<rparr>))"

section \<open>Admin permission requests (AdminPermissionRequest, normal_admin_request_permission)\<close>

definition PERMISSION_TYPES :: "(string \<times> string) list" where
  "PERMISSION_TYPES =
     [(''manage_users'', ''User Management''),
      (''manage_properties'', ''Property Management''),
      (''manage_payments'', ''Payment Management''),
      (''manage_premium'', ''Premium Features Management''),
      (''manage_content'', ''Content Management''),
      (''view_logs'', ''View System Logs''),
      (''export_data'', ''Export Data''),
      (''delete_data'', ''Delete Data''),
      (''system_settings'', ''System Settings'')]"

text \<open>
  \<^verbatim>\<open>dict(AdminPermissionRequest.PERMISSION_TYPES)[permission_type]\<close> raises on a name
  outside the list; \<^verbatim>\<open>get_permission_type_display()\<close> falls back to the stored name.
\<close>

definition permission_label :: "string \<Rightarrow> error + string" where
  "permission_label pt =
     (case map_of PERMISSION_TYPES pt of None \<Rightarrow> Inl KeyError | Some l \<Rightarrow> Inr l)"

definition get_permission_type_display :: "permission_request \<Rightarrow> string" where
  "get_permission_type_display self =
     dict_get (map_of PERMISSION_TYPES) (permission_type self) (permission_type self)"

definition get_admin_permissions :: "user \<Rightarrow> (string \<rightharpoonup> bool)" where
  "get_admin_permissions u =
     (if \<not> is_admin_active u then
        map_of [(''manage_users'', False), (''manage_properties'', False),
                (''manage_payments'', False), (''manage_premium'', False),
                (''manage_admins'', False), (''system_settings'', False),
                (''view_logs'', False), (''delete_data'', False),
                (''export_data'', False), (''manage_content'', False)]
      else admin_permissions u)"

text \<open>
  \<^verbatim>\<open>Meta.unique_together = ('requesting_admin', 'permission_type', 'status')\<close>: the
  database refuses a write that would leave two rows with the same triple.
\<close>

definition unique_together_conflict ::
  "(pk \<times> permission_request) list \<Rightarrow> pk \<Rightarrow> permission_request \<Rightarrow> bool" where
  "unique_together_conflict rows k r =
     list_ex (\<lambda>(k', r'). k' \<noteq> k \<and> requesting_admin r' = requesting_admin r \<and>
                permission_type r' = permission_type r \<and> req_status r' = req_status r) rows"

text \<open>\<^verbatim>\<open>save()\<close> of a request instance: an UPDATE of its row, or an INSERT when the key is new.\<close>

definition AdminPermissionRequest_save :: "pk \<times> permission_request \<Rightarrow> db \<Rightarrow> error + db" where
  "AdminPermissionRequest_save self st =
     (case self of (k, r) \<Rightarrow>
       if unique_together_conflict (permission_requests st) k r then Inl IntegrityError
       else Inr (st\<lparr>permission_requests :=
                    (if k \<in> set (map fst (permission_requests st))
                     then map (\<lambda>(k', r'). if k' = k then (k, r) else (k', r'))
                            (permission_requests st)
                     else permission_requests st @ [(k, r)])\<rparr>))"

definition new_pk :: "(pk \<times> 'a) list \<Rightarrow> pk" where
  "new_pk rows = Suc (fold max (map fst rows) 0)"

text \<open>
  \<^verbatim>\<open>AdminPermissionRequest.objects.create(requesting_admin=..., permission_type=...,
  reason=..., justification=...)\<close>: the other columns take their defaults, the status
  \<^verbatim>\<open>'pending'\<close>.
\<close>

definition AdminPermissionRequest_create ::
  "pk \<Rightarrow> string \<Rightarrow> string \<Rightarrow> string \<Rightarrow> db \<Rightarrow> error + db" where
  "AdminPermissionRequest_create admin pt rs js st =
     AdminPermissionRequest_save
       (new_pk (permission_requests st),
        \<lparr>requesting_admin = admin, permission_type = pt, reason = rs, justification = js,
         req_status = ''pending'', req_reviewed_at = None, req_reviewed_by = None,
         review_notes = [], granted_at = None\<rparr>) st"

definition AdminNotification_create :: "admin_notification \<Rightarrow> db \<Rightarrow> db" where
  "AdminNotification_create n st = st\<lparr>admin_notifications := admin_notifications st @ [n]\<rparr>"

text \<open>
  \<^verbatim>\<open>approve_request(self, super_admin)\<close>. \<^verbatim>\<open>self.requesting_admin\<close> is read from the
  users table. \<^verbatim>\<open>AdminActivityLog.objects.create\<close> is called without \<^verbatim>\<open>ip_address\<close>,
  so the entry it hands to \<^verbatim>\<open>save\<close> carries none.
\<close>

definition approve_request ::
  "pk \<times> permission_request \<Rightarrow> pk \<times> user \<Rightarrow> timestamp \<Rightarrow> db \<Rightarrow> (error \<times> db) + db" where
  "approve_request self super_admin now st =
     (case self of (rid, r) \<Rightarrow>
       (case users st (requesting_admin r) of
          None \<Rightarrow> Inl (DoesNotExist, st)
        | Some adm \<Rightarrow>
            (let permissions = (admin_permissions adm)(permission_type r \<mapsto> True);
                 st1 = st\<lparr>users := (users st)(requesting_admin r \<mapsto>
                           adm\<lparr>admin_permissions := permissions\<rparr>)\<rparr>;
                 r' = r\<lparr>req_status := ''approved'', req_reviewed_at := Some now,
                        req_reviewed_by := Some (fst super_admin), granted_at := Some now\<rparr>
             in (case AdminPermissionRequest_save (rid, r') st1 of
                   Inl e \<Rightarrow> Inl (e, st1)
                 | Inr st2 \<Rightarrow>
                     (case AdminActivityLog_save
                            \<lparr>log_admin = fst super_admin, action_type = ''permission'',
                             description = ''Granted '' @ get_permission_type_display r' @
                               '' permission to '' @ username adm,
                             target_model = Some ''User'',
                             target_id = Some (requesting_admin r),
                             ip_address = None, is_high_risk = True\<rparr> st2 of
                        Inl e \<Rightarrow> Inl (e, st2)
                      | Inr st3 \<Rightarrow>
                          Inr (AdminNotification_create
                            \<lparr>title = ''Permission Request Approved'',
                             message = ''Your request for '' @ get_permission_type_display r' @
                               '' permission has been approved by '' @ username (snd super_admin) @
                               ''. Please logout and login again to see the changes.'',
                             notification_type = ''permission_request'', priority = ''high'',
                             related_admin = requesting_admin r\<rparr> st3))))))"

text \<open>
  \<^verbatim>\<open>reject_request(self, super_admin, reason="")\<close>. The log entry is created without
  \<^verbatim>\<open>ip_address\<close> here too.
\<close>

definition reject_request ::
  "pk \<times> permission_request \<Rightarrow> pk \<times> user \<Rightarrow> string \<Rightarrow> timestamp \<Rightarrow> db \<Rightarrow> (error \<times> db) + db" where
  "reject_request self super_admin notes now st =
     (case self of (rid, r) \<Rightarrow>
       (let r' = r\<lparr>req_status := ''rejected'', req_reviewed_at := Some now,
                   req_reviewed_by := Some (fst super_admin), review_notes := notes\<rparr>
        in (case AdminPermissionRequest_save (rid, r') st of
              Inl e \<Rightarrow> Inl (e, st)
            | Inr st1 \<Rightarrow>
                (case users st1 (requesting_admin r) of
                   None \<Rightarrow> Inl (DoesNotExist, st1)
                 | Some adm \<Rightarrow>
                     (case AdminActivityLog_save
                            \<lparr>log_admin = fst super_admin, action_type = ''permission'',
                             description = ''Rejected '' @ get_permission_type_display r' @
                               '' permission request from '' @ username adm,
                             target_model = Some ''AdminPermissionRequest'',
                             target_id = Some rid,
                             ip_address = None, is_high_risk = False\<rparr> st1 of
                        Inl e \<Rightarrow> Inl (e, st1)
                      | Inr st2 \<Rightarrow>
                          Inr (AdminNotification_create
                            \<lparr>title = ''Permission Request Rejected'',
                             message = ''Your request for '' @ get_permission_type_display r' @
                               '' permission has been rejected by '' @ username (snd super_admin) @
                               ''. '' @ notes,
                             notification_type = ''permission_request'', priority = ''medium'',
                             related_admin = requesting_admin r\<rparr> st2))))))"

text \<open>What a view answers: the flash message it sets (or the page it turns to).\<close>

datatype response =
    Redirect_login | Render_form
  | All_fields_required | Already_granted | Already_pending | Request_submitted
  | Redirect_agent_application | Registration_successful
  | Agent_not_found | Agent_verified | Agent_unverified | Agent_activated | Agent_deactivated
  | No_action

text \<open>\<^verbatim>\<open>request.user\<close>, loaded for the request from the users table.\<close>

definition request_user :: "db \<Rightarrow> request \<Rightarrow> (pk \<times> user) option" where
  "request_user st req =
     (case session_user req of
        None \<Rightarrow> None
      | Some k \<Rightarrow> map_option (Pair k) (users st k))"

text \<open>The gate \<^verbatim>\<open>is_admin_user\<close> of \<^verbatim>\<open>user_passes_test\<close>; \<open>None\<close> is the anonymous user.\<close>

definition is_admin_user :: "(pk \<times> user) option \<Rightarrow> bool" where
  "is_admin_user ou =
     (case ou of None \<Rightarrow> False | Some (k, u) \<Rightarrow> is_normal_admin u \<or> is_super_admin u)"

text \<open>
  \<^verbatim>\<open>normal_admin_request_permission(request)\<close> behind its gate. A form field is
  \<open>None\<close> when the request does not carry it; \<^verbatim>\<open>not field\<close> holds for \<open>None\<close> and for
  the empty string.
\<close>

definition normal_admin_request_permission ::
  "request \<Rightarrow> db \<Rightarrow> (error \<times> db) + (response \<times> db)" where
  "normal_admin_request_permission req st =
     (case request_user st req of
        None \<Rightarrow> Inr (Redirect_login, st)
      | Some (uid, u) \<Rightarrow>
          if \<not> is_admin_user (Some (uid, u)) then Inr (Redirect_login, st)
          else if http_method req = ''POST'' then
            (case (POST req ''permission_type'', POST req ''reason'',
                   POST req ''justification'') of
               (Some pt, Some rs, Some js) \<Rightarrow>
                 if pt = [] \<or> rs = [] \<or> js = [] then Inr (All_fields_required, st)
                 else if dict_get (get_admin_permissions u) pt False then
                   (case permission_label pt of
                      Inl e \<Rightarrow> Inl (e, st)
                    | Inr label \<Rightarrow> Inr (Already_granted, st))
                 else if list_ex (\<lambda>(k, r). requesting_admin r = uid \<and>
                            permission_type r = pt \<and> req_status r = ''pending'')
                           (permission_requests st) then
                   (case permission_label pt of
                      Inl e \<Rightarrow> Inl (e, st)
                    | Inr label \<Rightarrow> Inr (Already_pending, st))
                 else
                   (case AdminPermissionRequest_create uid pt rs js st of
                      Inl e \<Rightarrow> Inl (e, st)
                    | Inr st1 \<Rightarrow>
                        (case permission_label pt of
                           Inl e \<Rightarrow> Inl (e, st1)
                         | Inr label \<Rightarrow>
                             (case log_admin_activity req uid ''create''
                                     (''Submitted permission request for '' @ label)
                                     (Some ''AdminPermissionRequest'') None None st1 of
                                Inl e \<Rightarrow> Inl (e, st1)
                              | Inr st2 \<Rightarrow> Inr (Request_submitted, st2))))
             | _ \<Rightarrow> Inr (All_fields_required, st))
          else Inr (Render_form, st))"

section \<open>Where the verified flag is written (register, normal_admin_agents, verify_agents)\<close>

text \<open>\<^verbatim>\<open>user.save()\<close> of an instance that has no key yet.\<close>

definition insert_user :: "user \<Rightarrow> db \<Rightarrow> db" where
  "insert_user u st = st\<lparr>users := (users st)(users_seq st \<mapsto> u), users_seq := Suc (users_seq st)\<rparr>"

text \<open>
  \<^verbatim>\<open>CustomUserCreationForm\<close> (accounts/forms.py): \<^verbatim>\<open>user_type\<close> is a required choice
  field over \<^verbatim>\<open>REGISTRATION_USER_TYPES\<close>, so a posted form whose role is not in that list
  is invalid. The other field checks of the form (user name, passwords, terms) are taken as
  passed.
\<close>

definition REGISTRATION_USER_TYPES :: "(string \<times> string) list" where
  "REGISTRATION_USER_TYPES =
     [(''broker'', ''Real Estate Broker''), (''buyer'', ''Property Buyer'')]"

definition form_is_valid :: "user \<Rightarrow> bool" where
  "form_is_valid user \<longleftrightarrow> user_type user \<in> set (map fst REGISTRATION_USER_TYPES)"

text \<open>
  \<^verbatim>\<open>register(request)\<close>. \<open>posted\<close> is \<open>None\<close> for a request that is not a POST, and
  \<open>Some user\<close> for a POST, with \<open>user\<close> the instance that \<^verbatim>\<open>form.save(commit=False)\<close>
  builds from the posted fields. An invalid form is rendered again.
\<close>

definition register :: "user option \<Rightarrow> timestamp \<Rightarrow> db \<Rightarrow> response \<times> db" where
  "register posted now st =
     (case posted of
        None \<Rightarrow> (Render_form, st)
      | Some user \<Rightarrow>
          if form_is_valid user then
            (if user_type user = ''agent'' then
               (Redirect_agent_application,
                insert_user (user\<lparr>is_active := False, is_verified := False\<rparr>) st)
             else
               (Registration_successful,
                insert_user (user\<lparr>is_active := True, is_verified := True,
                                   verification_date := Some now\<rparr>) st))
          else (Render_form, st))"

text \<open>
  The POST branch of \<^verbatim>\<open>normal_admin_agents(request)\<close>, for an operator \<open>admin\<close> who has
  passed the view's gate, with the form's \<^verbatim>\<open>agent_id\<close> and \<^verbatim>\<open>action\<close>. In each branch
  the agent is saved first and the action is logged afterwards.
\<close>

definition normal_admin_agents ::
  "request \<Rightarrow> pk \<Rightarrow> pk \<Rightarrow> string \<Rightarrow> timestamp \<Rightarrow> db \<Rightarrow> (error \<times> db) + (response \<times> db)" where
  "normal_admin_agents req admin agent_id action now st =
     (case users st agent_id of
        None \<Rightarrow> Inr (Agent_not_found, st)
      | Some agent \<Rightarrow>
          if user_type agent \<notin> set [''agent'', ''broker''] then Inr (Agent_not_found, st)
          else if action = ''verify'' \<and> \<not> is_verified agent then
            (let st1 = st\<lparr>users := (users st)(agent_id \<mapsto>
                          agent\<lparr>is_verified := True, verification_date := Some now\<rparr>)\<rparr>
             in case log_admin_activity req admin ''verify''
                       (''Verified agent: '' @ username agent)
                       (Some ''User'') (Some agent_id) None st1 of
                  Inl e \<Rightarrow> Inl (e, st1)
                | Inr st2 \<Rightarrow> Inr (Agent_verified, st2))
          else if action = ''unverify'' \<and> is_verified agent then
            (let st1 = st\<lparr>users := (users st)(agent_id \<mapsto>
                          agent\<lparr>is_verified := False, verification_date := None\<rparr>)\<rparr>
             in case log_admin_activity req admin ''update''
                       (''Unverified agent: '' @ username agent)
                       (Some ''User'') (Some agent_id) None st1 of
                  Inl e \<Rightarrow> Inl (e, st1)
                | Inr st2 \<Rightarrow> Inr (Agent_unverified, st2))
          else if action = ''activate'' \<and> \<not> is_active agent then
            (let st1 = st\<lparr>users := (users st)(agent_id \<mapsto> agent\<lparr>is_active := True\<rparr>)\<rparr>
             in case log_admin_activity req admin ''update''
                       (''Activated agent account: '' @ username agent)
                       (Some ''User'') (Some agent_id) None st1 of
                  Inl e \<Rightarrow> Inl (e, st1)
                | Inr st2 \<Rightarrow> Inr (Agent_activated, st2))
          else if action = ''deactivate'' \<and> is_active agent then
            (let st1 = st\<lparr>users := (users st)(agent_id \<mapsto> agent\<lparr>is_active := False\<rparr>)\<rparr>
             in case log_admin_activity req admin ''update''
                       (''Deactivated agent account: '' @ username agent)
                       (Some ''User'') (Some agent_id) None st1 of
                  Inl e \<Rightarrow> Inl (e, st1)
                | Inr st2 \<Rightarrow> Inr (Agent_deactivated, st2))
          else Inr (No_action, st))"

text \<open>
  \<^verbatim>\<open>CustomUserAdmin.verify_agents(self, request, queryset)\<close>: the UPDATE over the selected
  unverified agents, then \<^verbatim>\<open>agents_to_verify.count()\<close>, which runs the same filter again on
  the updated table.
\<close>

definition verify_agents :: "timestamp \<Rightarrow> pk list \<Rightarrow> db \<Rightarrow> nat \<times> db" where
  "verify_agents now ids st =
     (let agents_to_verify = (\<lambda>tbl k. k \<in> set ids \<and>
             (case tbl k of
                None \<Rightarrow> False
              | Some u \<Rightarrow> user_type u = ''agent'' \<and> \<not> is_verified u));
          tbl' = (\<lambda>k. if agents_to_verify (users st) k
                       then map_option (\<lambda>u. u\<lparr>is_verified := True, is_active := True,
                                               verification_date := Some now\<rparr>) (users st k)
                       else users st k)
      in (length (filter (agents_to_verify tbl') (remdups ids)), st\<lparr>users := tbl'\<rparr>))"

section \<open>Reading a result\<close>

text \<open>
  The exception a call ended with, if any, and the database it left behind (for a call
  that raised: the database as it stood when the exception left the function).
\<close>

definition raised :: "(error \<times> db) + 'a \<Rightarrow> error option" where
  "raised res = (case res of Inl (e, st) \<Rightarrow> Some e | Inr x \<Rightarrow> None)"

definition result_db :: "(error \<times> db) + db \<Rightarrow> db" where
  "result_db res = (case res of Inl (e, st) \<Rightarrow> st | Inr st \<Rightarrow> st)"

section \<open>Example data\<close>

text \<open>
  Accounts and tables on which the results below are evaluated: an agent account that
  awaits review (inactive, unverified), a limited admin, a super admin, and databases
  holding their applications and permission requests.
\<close>

definition agent_42 :: user where
  "agent_42 =
     \<lparr>username = ''sita'', user_type = ''agent'', is_active = False, is_verified = False,
      verification_date = None, is_admin_active = False, admin_permissions = Map.empty\<rparr>"

definition admin_7 :: user where
  "admin_7 =
     \<lparr>username = ''hari'', user_type = ''admin'', is_active = True, is_verified = True,
      verification_date = None, is_admin_active = True, admin_permissions = Map.empty\<rparr>"

definition super_1 :: user where
  "super_1 =
     \<lparr>username = ''SuperAdmin'', user_type = ''super_admin'', is_active = True,
      is_verified = True, verification_date = None, is_admin_active = True,
      admin_permissions = Map.empty\<rparr>"

definition application_of :: "pk \<Rightarrow> string \<Rightarrow> agent_application" where
  "application_of owner s =
     \<lparr>applicant = owner, app_status = s, reviewed_at = None, reviewed_by = None,
      admin_feedback = [], requested_documents = []\<rparr>"

text \<open>One application, number 1, of account 42, in a given status.\<close>

definition review_db :: "user \<Rightarrow> string \<Rightarrow> db" where
  "review_db owner s =
     \<lparr>users = [42 \<mapsto> owner, 7 \<mapsto> admin_7], users_seq = 43,
      applications = [1 \<mapsto> application_of 42 s],
      permission_requests = [], activity_logs = [], admin_notifications = [],
      user_activities = []\<rparr>"

text \<open>Scenario D of the specification: applications 1 pending, 2 approved, 3 rejected.\<close>

definition scenario_d_db :: db where
  "scenario_d_db =
     \<lparr>users = [41 \<mapsto> agent_42, 42 \<mapsto> agent_42, 43 \<mapsto> agent_42, 7 \<mapsto> admin_7],
      users_seq = 44,
      applications = [1 \<mapsto> application_of 41 ''pending'', 2 \<mapsto> application_of 42 ''approved'',
                      3 \<mapsto> application_of 43 ''rejected''],
      permission_requests = [], activity_logs = [], admin_notifications = [],
      user_activities = []\<rparr>"

definition request_of :: "pk \<Rightarrow> string \<Rightarrow> string \<Rightarrow> permission_request" where
  "request_of admin pt s =
     \<lparr>requesting_admin = admin, permission_type = pt, reason = ''X'', justification = ''Y'',
      req_status = s, req_reviewed_at = None, req_reviewed_by = None, review_notes = [],
      granted_at = None\<rparr>"

text \<open>Admin 7 and super admin 1, with a given table of permission requests.\<close>

definition permission_db :: "(pk \<times> permission_request) list \<Rightarrow> db" where
  "permission_db rows =
     \<lparr>users = [1 \<mapsto> super_1, 7 \<mapsto> admin_7], users_seq = 8, applications = Map.empty,
      permission_requests = rows, activity_logs = [], admin_notifications = [],
      user_activities = []\<rparr>"

text \<open>Admin 7 submitting the form for \<^verbatim>\<open>manage_payments\<close>.\<close>

definition payments_form :: request where
  "payments_form =
     \<lparr>session_user = Some 7, http_method = ''POST'',
      POST = [''permission_type'' \<mapsto> ''manage_payments'', ''reason'' \<mapsto> ''X'',
              ''justification'' \<mapsto> ''Y''],
      remote_addr = Some ''10.0.0.7''\<rparr>"

text \<open>
  The database that \<^verbatim>\<open>approve_request\<close> leaves behind when super admin 1 approves the
  pending request of admin 7.
\<close>

definition after_approval_db :: db where
  "after_approval_db =
     result_db (approve_request (1, request_of 7 ''manage_payments'' ''pending'') (1, super_1) 100
       (permission_db [(1, request_of 7 ''manage_payments'' ''pending'')]))"

text \<open>A visitor registering as a buyer, as the registration form hands the instance over.\<close>

definition new_buyer :: user where
  "new_buyer =
     \<lparr>username = ''gita'', user_type = ''buyer'', is_active = True, is_verified = False,
      verification_date = None, is_admin_active = False, admin_permissions = Map.empty\<rparr>"

text \<open>
  The audit entry that \<^verbatim>\<open>reject_request\<close> builds for that request, as it would be with
  the operator's address filled in.
\<close>

definition rejection_entry :: admin_activity_log where
  "rejection_entry =
     \<lparr>log_admin = 1, action_type = ''permission'',
      description = ''Rejected Payment Management permission request from hari'',
      target_model = Some ''AdminPermissionRequest'', target_id = Some 1,
      ip_address = Some ''10.0.0.1'', is_high_risk = False\<rparr>"

definition admin_request :: request where
  "admin_request =
     \<lparr>session_user = Some 7, http_method = ''POST'', POST = Map.empty,
      remote_addr = Some ''10.0.0.7''\<rparr>"

section \<open>Authorization gate: results\<close>

lemma can_unfold:
  "can u c =
     (if c = Manage_admins then user_type u = ''super_admin''
      else if user_type u = ''super_admin'' then True
      else is_admin_active u \<and> dict_get (admin_permissions u) (capability_key c) False)"
  by (cases c)
     (simp_all add: can_manage_users_def can_manage_properties_def can_manage_payments_def
        can_manage_premium_def can_manage_admins_def can_manage_system_def can_view_logs_def
        can_delete_data_def can_export_data_def can_manage_content_def)

lemma dict_get_False: "dict_get d k False \<longleftrightarrow> d k = Some True"
  by (simp add: dict_get_def split: option.split)

text \<open>
  C3, as amended. The capability predicate is true for every account whose role is
  super_admin, whatever the permission dictionary and the admin-active flag are. For every
  other role (admin or not) it is true exactly when the capability is not manage_admins,
  the account's admin-active flag is set and the permission dictionary maps the
  capability's key to true; a missing key gives false. manage_admins is granted to
  super_admin only. The predicates do not look at the role beyond the super_admin test.
\<close>

theorem can_contract:
  "can u c \<longleftrightarrow>
     user_type u = ''super_admin'' \<or>
     (c \<noteq> Manage_admins \<and> is_admin_active u \<and>
      admin_permissions u (capability_key c) = Some True)"
  by (auto simp add: can_unfold dict_get_False)

text \<open>
  C3 as stated fails: for an account that is neither super_admin nor admin the claim
  promises false, but the predicate grants the capability to the demoted admin above.
\<close>

theorem can_contract_counterexample:
  "can demoted_admin Manage_users \<and> \<not> can_spec demoted_admin Manage_users"
  by (simp add: can_manage_users_def can_spec_def demoted_admin_def dict_get_def)

section \<open>Audit log writer: results\<close>

text \<open>An entry without an address is refused by the database: nothing is stored.\<close>

lemma log_without_address_raises:
  "ip_address e = None \<Longrightarrow> AdminActivityLog_save e st = Inl IntegrityError"
  by (simp add: AdminActivityLog_save_def Let_def)

text \<open>
  C4. Every call of the audit-log writer with an entry that carries an address stores
  exactly one entry, and whatever the caller passes, the stored entry has is_high_risk true
  when its action_type is delete, ban, refund or permission; for every other action_type
  the stored flag is the caller's value, which is false when \<^verbatim>\<open>log_admin_activity\<close> is
  called without one. (A call without an address stores no entry at all, by the lemma
  above.)
\<close>

theorem high_risk_derivation:
  assumes "ip_address e = Some a" and "remote_addr req = Some a'"
  shows "AdminActivityLog_save e st =
           Inr (st\<lparr>activity_logs := activity_logs st @
                  [e\<lparr>is_high_risk :=
                       (if action_type e \<in> {''delete'', ''ban'', ''refund'', ''permission''}
                        then True else is_high_risk e)\<rparr>]\<rparr>)
       \<and> log_admin_activity req admin act descr tmodel tid risk st =
           Inr (st\<lparr>activity_logs := activity_logs st @
                  [\<lparr>log_admin = admin, action_type = act, description = descr,
                    target_model = tmodel, target_id = tid, ip_address = Some a',
                    is_high_risk =
                      (if act \<in> {''delete'', ''ban'', ''refund'', ''permission''} then True
                       else case risk of None \<Rightarrow> False | Some b \<Rightarrow> b)\<rparr>]\<rparr>)"
  using assms
  by (simp add: AdminActivityLog_save_def log_admin_activity_def high_risk_actions_def Let_def)

text \<open>
  The entry of a rejection, passed as not high-risk, is stored as high-risk; a create
  entry logged without a flag is stored as not high-risk.
\<close>

theorem high_risk_derivation_witness:
  "AdminActivityLog_save rejection_entry (permission_db []) =
     Inr ((permission_db [])\<lparr>activity_logs := [rejection_entry\<lparr>is_high_risk := True\<rparr>]\<rparr>)
   \<and> log_admin_activity admin_request 7 ''create'' ''Submitted'' None None None (permission_db []) =
     Inr ((permission_db [])\<lparr>activity_logs :=
            [\<lparr>log_admin = 7, action_type = ''create'', description = ''Submitted'',
              target_model = None, target_id = None, ip_address = Some ''10.0.0.7'',
              is_high_risk = False\<rparr>]\<rparr>)"
  using high_risk_derivation[where e = rejection_entry and a = "''10.0.0.1''"
      and req = admin_request and a' = "''10.0.0.7''" and st = "permission_db []"
      and admin = 7 and act = "''create''" and descr = "''Submitted''"
      and tmodel = None and tid = None and risk = None]
  by (simp add: rejection_entry_def admin_request_def permission_db_def)

section \<open>Agent application review: results\<close>

lemma in_set_map_filter:
  "y \<in> set (List.map_filter f xs) \<longleftrightarrow> (\<exists>x. x \<in> set xs \<and> f x = Some y)"
  by (induction xs) (auto simp: map_filter_simps split: option.splits)

lemma get_queryset_iff:
  "(k, a, u) \<in> set (get_queryset st ids) \<longleftrightarrow>
     k \<in> set ids \<and> applications st k = Some a \<and> users st (applicant a) = Some u"
  unfolding get_queryset_def in_set_map_filter
  by (auto split: option.splits)

lemma approve_each_user_kept:
  assumes "\<exists>u. users st x = Some u \<and> is_active u \<and> is_verified u \<and> verification_date u = Some now"
  shows "\<exists>u. users (snd (approve_each reviewer now rows (n, st))) x = Some u \<and> is_active u \<and> is_verified u \<and> verification_date u = Some now"
  using assms
  by (induction rows arbitrary: n st) (auto simp: Let_def)

lemma approve_each_app_kept:
  assumes "\<exists>a. applications st x = Some a \<and> app_status a = ''approved'' \<and> reviewed_at a = Some now \<and> reviewed_by a = Some reviewer"
  shows "\<exists>a. applications (snd (approve_each reviewer now rows (n, st))) x = Some a \<and> app_status a = ''approved'' \<and> reviewed_at a = Some now \<and> reviewed_by a = Some reviewer"
  using assms
  by (induction rows arbitrary: n st) (auto simp: Let_def)

lemma approve_each_member:
  assumes "(k, a, u) \<in> set rows"
  shows "(\<exists>a'. applications (snd (approve_each reviewer now rows (n, st))) k = Some a' \<and>
            app_status a' = ''approved'' \<and> reviewed_at a' = Some now \<and>
            reviewed_by a' = Some reviewer) \<and>
         (\<exists>u'. users (snd (approve_each reviewer now rows (n, st))) (applicant a) = Some u' \<and>
            is_active u' \<and> is_verified u' \<and> verification_date u' = Some now)"
  using assms
proof (induction rows arbitrary: n st)
  case Nil
  then show ?case by simp
next
  case (Cons row rows)
  obtain k0 a0 u0 where row: "row = (k0, a0, u0)" by (cases row) auto
  show ?case
  proof (cases "(k, a, u) = row")
    case True
    then have eq: "k0 = k" "a0 = a" "u0 = u" using row by auto
    show ?thesis
      unfolding row eq
      by (simp add: Let_def approve_each_user_kept approve_each_app_kept)
  next
    case False
    then have "(k, a, u) \<in> set rows" using Cons.prems by auto
    then show ?thesis
      unfolding row by (simp add: Let_def Cons.IH)
  qed
qed

text \<open>
  C1. For an application whose status is pending or under_review and whose applicant
  account exists, approving it leaves the application approved with reviewed_at and
  reviewed_by set, and the applicant's account active and verified with a verification
  date, all together. This holds for the bulk action \<^verbatim>\<open>approve_applications\<close> on any
  selection that contains the application, and for the admin form (\<^verbatim>\<open>save_model\<close> on the
  instance whose status the form has changed to approved).
\<close>

theorem approval_cascade:
  assumes "applications st k = Some a"
      and "app_status a = ''pending'' \<or> app_status a = ''under_review''"
      and "users st (applicant a) = Some u"
  shows "(k \<in> set ids \<longrightarrow>
           (\<exists>a' u'. applications (snd (approve_applications reviewer now ids st)) k = Some a' \<and>
              app_status a' = ''approved'' \<and> reviewed_at a' = Some now \<and>
              reviewed_by a' = Some reviewer \<and>
              users (snd (approve_applications reviewer now ids st)) (applicant a) = Some u' \<and>
              is_active u' \<and> is_verified u' \<and> verification_date u' = Some now))
       \<and> (app_status obj = ''approved'' \<and> applicant obj = applicant a \<and>
            ''status'' \<in> set changed_data \<longrightarrow>
           (\<exists>st' a' u'. save_model operator (k, obj) changed_data True now st = Inr st' \<and>
              applications st' k = Some a' \<and>
              app_status a' = ''approved'' \<and> reviewed_at a' = Some now \<and>
              reviewed_by a' = Some (fst operator) \<and>
              users st' (applicant a) = Some u' \<and>
              is_active u' \<and> is_verified u' \<and> verification_date u' = Some now))"
proof (intro conjI impI)
  assume "k \<in> set ids"
  with assms have "(k, a, u) \<in> set (filter (\<lambda>(k, a, u). app_status a \<in> set [''pending'', ''under_review''])
          (get_queryset st ids))"
    by (auto simp: get_queryset_iff)
  from approve_each_member[OF this, of reviewer now 0 st]
  show "\<exists>a' u'. applications (snd (approve_applications reviewer now ids st)) k = Some a' \<and>
              app_status a' = ''approved'' \<and> reviewed_at a' = Some now \<and>
              reviewed_by a' = Some reviewer \<and>
              users (snd (approve_applications reviewer now ids st)) (applicant a) = Some u' \<and>
              is_active u' \<and> is_verified u' \<and> verification_date u' = Some now"
    unfolding approve_applications_def by blast
next
  assume "app_status obj = ''approved'' \<and> applicant obj = applicant a \<and>
            ''status'' \<in> set changed_data"
  with assms(3)
  show "\<exists>st' a' u'. save_model operator (k, obj) changed_data True now st = Inr st' \<and>
              applications st' k = Some a' \<and>
              app_status a' = ''approved'' \<and> reviewed_at a' = Some now \<and>
              reviewed_by a' = Some (fst operator) \<and>
              users st' (applicant a) = Some u' \<and>
              is_active u' \<and> is_verified u' \<and> verification_date u' = Some now"
    by (simp add: save_model_def Let_def)
qed

text \<open>The cascade on application 1 of the freshly registered agent 42.\<close>

theorem approval_cascade_witness:
  "(\<exists>a' u'. applications (snd (approve_applications 7 100 [1] (review_db agent_42 ''pending''))) 1 = Some a' \<and>
      app_status a' = ''approved'' \<and> reviewed_at a' = Some 100 \<and> reviewed_by a' = Some 7 \<and>
      users (snd (approve_applications 7 100 [1] (review_db agent_42 ''pending''))) 42 = Some u' \<and>
      is_active u' \<and> is_verified u' \<and> verification_date u' = Some 100)
   \<and> (\<exists>st' a' u'. save_model (7, admin_7) (1, application_of 42 ''approved'') [''status''] True 100
          (review_db agent_42 ''pending'') = Inr st' \<and>
      applications st' 1 = Some a' \<and>
      app_status a' = ''approved'' \<and> reviewed_at a' = Some 100 \<and> reviewed_by a' = Some 7 \<and>
      users st' 42 = Some u' \<and>
      is_active u' \<and> is_verified u' \<and> verification_date u' = Some 100)"
  using approval_cascade[where st = "review_db agent_42 ''pending''" and k = 1
      and a = "application_of 42 ''pending''" and u = agent_42 and ids = "[1]"
      and obj = "application_of 42 ''approved''" and changed_data = "[''status'']"
      and reviewer = 7 and now = 100 and operator = "(7, admin_7)"]
  by (simp add: review_db_def application_of_def)

lemma filter_update_users: "users (snd (filter_update statuses assign ids st)) = users st"
  by (simp add: filter_update_def Let_def)

text \<open>
  The lockout on the two paths: the bulk actions never write the users table, while the
  admin form deactivates and unverifies the applicant on rejected and needs_info.
\<close>

lemma bulk_lockout_frame:
  "users (snd (reject_applications reviewer now ids st)) = users st \<and>
   users (snd (request_more_info reviewer now ids st)) = users st"
  by (simp add: reject_applications_def request_more_info_def filter_update_users)

lemma save_model_lockout:
  assumes "users st (applicant obj) = Some u"
      and "app_status obj = ''rejected'' \<or> app_status obj = ''needs_info''"
      and "''status'' \<in> set changed_data"
  shows "\<exists>st' u'. save_model operator (k, obj) changed_data True now st = Inr st' \<and>
           users st' (applicant obj) = Some u' \<and> \<not> is_active u' \<and> \<not> is_verified u'"
  using assms by (auto simp add: save_model_def Let_def)

text \<open>
  C2 fails on the bulk path. The two bulk actions are a single UPDATE of the application
  table; on a pending application whose applicant is active and verified they set the
  status and the reviewer and leave the account as it was, active and verified.
\<close>

theorem bulk_reject_keeps_account_verified:
  "fst (reject_applications 7 100 [1]
          (review_db (agent_42\<lparr>is_active := True, is_verified := True\<rparr>) ''pending'')) = 1 \<and>
   applications (snd (reject_applications 7 100 [1]
          (review_db (agent_42\<lparr>is_active := True, is_verified := True\<rparr>) ''pending''))) 1 =
     Some ((application_of 42 ''rejected'')\<lparr>reviewed_at := Some 100, reviewed_by := Some 7\<rparr>) \<and>
   users (snd (reject_applications 7 100 [1]
          (review_db (agent_42\<lparr>is_active := True, is_verified := True\<rparr>) ''pending''))) 42 =
     Some (agent_42\<lparr>is_active := True, is_verified := True\<rparr>) \<and>
   applications (snd (request_more_info 7 100 [1]
          (review_db (agent_42\<lparr>is_active := True, is_verified := True\<rparr>) ''pending''))) 1 =
     Some ((application_of 42 ''needs_info'')\<lparr>reviewed_at := Some 100, reviewed_by := Some 7\<rparr>) \<and>
   users (snd (request_more_info 7 100 [1]
          (review_db (agent_42\<lparr>is_active := True, is_verified := True\<rparr>) ''pending''))) 42 =
     Some (agent_42\<lparr>is_active := True, is_verified := True\<rparr>)"
  by (simp add: reject_applications_def request_more_info_def filter_update_def Let_def
        review_db_def application_of_def)

text \<open>
  C7. When every selected application is already approved or rejected, the bulk actions
  \<^verbatim>\<open>approve_applications\<close> and \<^verbatim>\<open>reject_applications\<close> report 0 and return the database
  as it was: no field of any application or account changes, and nothing is raised.
\<close>

theorem terminal_state_noop:
  assumes "\<forall>k \<in> set ids. \<forall>a. applications st k = Some a \<longrightarrow>
             app_status a = ''approved'' \<or> app_status a = ''rejected''"
  shows "approve_applications reviewer now ids st = (0, st) \<and>
         reject_applications reviewer now ids st = (0, st)"
proof
  have "app_status a \<notin> set [''pending'', ''under_review'']"
    if "(k, a, u) \<in> set (get_queryset st ids)" for k a u
  proof -
    from that have "k \<in> set ids" and "applications st k = Some a"
      by (simp_all add: get_queryset_iff)
    with assms have "app_status a = ''approved'' \<or> app_status a = ''rejected''"
      by blast
    then show ?thesis by auto
  qed
  then have "filter (\<lambda>(k, a, u). app_status a \<in> set [''pending'', ''under_review''])
          (get_queryset st ids) = []"
    unfolding filter_empty_conv by blast
  then show "approve_applications reviewer now ids st = (0, st)"
    by (simp add: approve_applications_def)
next
  let ?hit = "\<lambda>k. k \<in> set ids \<and>
                (case applications st k of
                   None \<Rightarrow> False
                 | Some a \<Rightarrow> app_status a \<in> set [''pending'', ''under_review'', ''needs_info''])"
  have no_hit: "\<not> ?hit k" for k
  proof (cases "applications st k")
    case None
    then show ?thesis by simp
  next
    case (Some a)
    show ?thesis
    proof (cases "k \<in> set ids")
      case True
      with assms Some have "app_status a = ''approved'' \<or> app_status a = ''rejected''"
        by blast
      with Some show ?thesis by auto
    next
      case False
      then show ?thesis by simp
    qed
  qed
  then have count: "filter ?hit (remdups ids) = []"
    by (simp add: filter_empty_conv)
  have "(\<lambda>k. if ?hit k then map_option assign (applications st k) else applications st k) =
          applications st" for assign :: "agent_application \<Rightarrow> agent_application"
  proof (rule ext)
    fix k
    show "(if ?hit k then map_option assign (applications st k) else applications st k) =
            applications st k"
      using no_hit[of k] by (rule if_not_P)
  qed
  with count show "reject_applications reviewer now ids st = (0, st)"
    by (simp add: reject_applications_def filter_update_def Let_def)
qed

text \<open>Applications 2 (approved) and 3 (rejected) of scenario D.\<close>

theorem terminal_state_noop_witness:
  "approve_applications 7 100 [2, 3] scenario_d_db = (0, scenario_d_db) \<and>
   reject_applications 7 100 [2, 3] scenario_d_db = (0, scenario_d_db)"
  using terminal_state_noop[where ids = "[2, 3]" and st = scenario_d_db and reviewer = 7 and now = 100]
  by (simp add: scenario_d_db_def application_of_def)

lemma approve_each_fst:
  "fst (approve_each reviewer now rows (n, st)) = n + length rows"
  by (induction rows arbitrary: n st) (auto simp: Let_def)

lemma length_filter_map_filter:
  "length (filter P (List.map_filter f xs)) =
     length (filter (\<lambda>x. case f x of None \<Rightarrow> False | Some y \<Rightarrow> P y) xs)"
  by (induction xs) (auto simp: map_filter_simps split: option.splits)

lemma approve_each_applications:
  assumes "\<And>k a u. (k, a, u) \<in> set rows \<Longrightarrow> base k = Some a"
  shows "applications (snd (approve_each reviewer now rows (n, st))) k =
           (if k \<in> fst ` set rows
            then map_option (\<lambda>a. a\<lparr>app_status := ''approved'', reviewed_at := Some now,
                                    reviewed_by := Some reviewer\<rparr>) (base k)
            else applications st k)"
  using assms
proof (induction rows arbitrary: n st)
  case Nil
  then show ?case by simp
next
  case (Cons row rows)
  obtain k0 a0 u0 where row: "row = (k0, a0, u0)" by (cases row) auto
  have base0: "base k0 = Some a0" using Cons.prems[of k0 a0 u0] row by simp
  have rest: "base k = Some a" if "(k, a, u) \<in> set rows" for k a u
    using Cons.prems[of k a u] that by simp
  show ?case
    unfolding row
    by (simp add: Let_def Cons.IH[OF rest] base0)
qed

text \<open>
  C6, as amended. On a database in which every application's applicant exists, the bulk
  action \<^verbatim>\<open>approve_applications\<close> transitions exactly the selected applications whose
  status is pending or under_review (needs_info is not eligible for approval): each of them
  becomes approved with reviewed_at and reviewed_by set, every other application row is
  left as it was, and the reported count is the number of distinct selected applications in
  those two statuses. The action is total: an ineligible entry is skipped, never an error.
\<close>

theorem bulk_approve_eligibility:
  assumes "\<forall>k a. applications st k = Some a \<longrightarrow> applicant a \<in> dom (users st)"
  shows "fst (approve_applications reviewer now ids st) =
           length (filter (\<lambda>k. case applications st k of
                                 None \<Rightarrow> False
                               | Some a \<Rightarrow> app_status a = ''pending'' \<or>
                                           app_status a = ''under_review'')
                     (remdups ids))
       \<and> (\<forall>k. applications (snd (approve_applications reviewer now ids st)) k =
            (case applications st k of
               None \<Rightarrow> None
             | Some a \<Rightarrow>
                 if k \<in> set ids \<and>
                    (app_status a = ''pending'' \<or> app_status a = ''under_review'')
                 then Some (a\<lparr>app_status := ''approved'', reviewed_at := Some now,
                              reviewed_by := Some reviewer\<rparr>)
                 else Some a))"
proof (intro conjI allI)
  let ?f = "\<lambda>k. case applications st k of
              None \<Rightarrow> None
            | Some a \<Rightarrow> (case users st (applicant a) of
                          None \<Rightarrow> None
                        | Some u \<Rightarrow> Some (k, a, u))"
  let ?P = "\<lambda>(k, a, u). app_status a \<in> set [''pending'', ''under_review'']"
  let ?Q = "\<lambda>k. case applications st k of
              None \<Rightarrow> False
            | Some a \<Rightarrow> app_status a = ''pending'' \<or> app_status a = ''under_review''"
  have pointwise: "(case ?f k of None \<Rightarrow> False | Some y \<Rightarrow> ?P y) = ?Q k" for k
    using assms by (auto split: option.splits)
  have "fst (approve_applications reviewer now ids st) =
          length (filter ?P (List.map_filter ?f (remdups ids)))"
    by (simp add: approve_applications_def approve_each_fst get_queryset_def)
  also have "\<dots> = length (filter (\<lambda>k. case ?f k of None \<Rightarrow> False | Some y \<Rightarrow> ?P y)
                         (remdups ids))"
    by (rule length_filter_map_filter)
  also have "\<dots> = length (filter ?Q (remdups ids))"
    unfolding pointwise ..
  finally show "fst (approve_applications reviewer now ids st) = length (filter ?Q (remdups ids))" .
next
  fix k
  let ?rows = "filter (\<lambda>(k, a, u). app_status a \<in> set [''pending'', ''under_review''])
                 (get_queryset st ids)"
  have step: "applications (snd (approve_each reviewer now ?rows (0, st))) k =
                (if k \<in> fst ` set ?rows
                 then map_option (\<lambda>a. a\<lparr>app_status := ''approved'', reviewed_at := Some now,
                                         reviewed_by := Some reviewer\<rparr>) (applications st k)
                 else applications st k)"
    by (rule approve_each_applications) (simp add: get_queryset_iff)
  have keys: "k \<in> fst ` set ?rows \<longleftrightarrow>
                k \<in> set ids \<and> (\<exists>a. applications st k = Some a \<and>
                  (app_status a = ''pending'' \<or> app_status a = ''under_review''))"
    using assms by (force simp: get_queryset_iff image_iff)
  show "applications (snd (approve_applications reviewer now ids st)) k =
            (case applications st k of
               None \<Rightarrow> None
             | Some a \<Rightarrow>
                 if k \<in> set ids \<and>
                    (app_status a = ''pending'' \<or> app_status a = ''under_review'')
                 then Some (a\<lparr>app_status := ''approved'', reviewed_at := Some now,
                              reviewed_by := Some reviewer\<rparr>)
                 else Some a)"
    unfolding approve_applications_def step keys
    by (auto split: option.splits)
qed

text \<open>
  Scenario D: of applications 1 (pending), 2 (approved) and 3 (rejected) only the first is
  transitioned, and the count is 1.
\<close>

theorem bulk_approve_eligibility_witness:
  "fst (approve_applications 7 100 [1, 2, 3] scenario_d_db) = 1 \<and>
   applications (snd (approve_applications 7 100 [1, 2, 3] scenario_d_db)) 1 =
     Some ((application_of 41 ''approved'')\<lparr>reviewed_at := Some 100, reviewed_by := Some 7\<rparr>) \<and>
   applications (snd (approve_applications 7 100 [1, 2, 3] scenario_d_db)) 2 =
     Some (application_of 42 ''approved'') \<and>
   applications (snd (approve_applications 7 100 [1, 2, 3] scenario_d_db)) 3 =
     Some (application_of 43 ''rejected'')"
  using bulk_approve_eligibility[where st = scenario_d_db and ids = "[1, 2, 3]"
      and reviewer = 7 and now = 100]
  by (simp add: scenario_d_db_def application_of_def dom_def)

text \<open>
  C6 as stated fails: an application in needs_info, which the claim counts as eligible, is
  skipped by the bulk approval; the count is 0 and the database is unchanged.
\<close>

theorem bulk_approve_needs_info_counterexample:
  "applications (review_db agent_42 ''needs_info'') 1 = Some (application_of 42 ''needs_info'') \<and>
   approve_applications 7 100 [1] (review_db agent_42 ''needs_info'') =
     (0, review_db agent_42 ''needs_info'')"
  by (simp add: approve_applications_def get_queryset_def map_filter_simps
        review_db_def application_of_def)

section \<open>Admin permission requests: results\<close>

text \<open>
  The uniqueness check reads only the triple (requesting_admin, permission_type, status).
\<close>

lemma conflict_triple:
  "unique_together_conflict rows k
     (r\<lparr>req_status := s, req_reviewed_at := ra, req_reviewed_by := rb, review_notes := rn\<rparr>) =
   unique_together_conflict rows k (r\<lparr>req_status := s\<rparr>)"
  "unique_together_conflict rows k
     (r\<lparr>req_status := s, req_reviewed_at := ra, req_reviewed_by := rb, granted_at := ga\<rparr>) =
   unique_together_conflict rows k (r\<lparr>req_status := s\<rparr>)"
  by (simp_all add: unique_together_conflict_def)

lemma saved_row_present:
  assumes "AdminPermissionRequest_save (k, r) st = Inr st'"
  shows "(k, r) \<in> set (permission_requests st') \<and> users st' = users st \<and>
         activity_logs st' = activity_logs st \<and>
         admin_notifications st' = admin_notifications st"
proof -
  let ?rows = "permission_requests st"
  let ?f = "\<lambda>(k', r'). if k' = k then (k, r) else (k', r')"
  let ?rows' = "if k \<in> set (map fst ?rows) then map ?f ?rows else ?rows @ [(k, r)]"
  have st': "st' = st\<lparr>permission_requests := ?rows'\<rparr>"
    using assms unfolding AdminPermissionRequest_save_def
    by (simp split: if_splits)
  have "(k, r) \<in> set ?rows'"
  proof (cases "k \<in> set (map fst ?rows)")
    case True
    then obtain b where b: "(k, b) \<in> set ?rows" by auto
    from b have "(k, r) \<in> ?f ` set ?rows" by (rule rev_image_eqI) simp
    with True show ?thesis by simp
  next
    case False
    then show ?thesis by simp
  qed
  then show ?thesis unfolding st' by simp
qed

text \<open>
  A rejection proceeds to the audit entry and stops there. When the request's own save
  goes through, the request is left rejected with the review fields set, and the audit
  entry, built without an address, is refused: \<^verbatim>\<open>IntegrityError\<close> leaves the method, no
  entry is stored and the notification is never created.
\<close>

lemma reject_request_stops_at_log:
  assumes "users st (requesting_admin r) = Some adm"
      and "\<not> unique_together_conflict (permission_requests st) rid (r\<lparr>req_status := ''rejected''\<rparr>)"
  shows "\<exists>st1. reject_request (rid, r) super_admin rnotes now st = Inl (IntegrityError, st1) \<and>
           (rid, r\<lparr>req_status := ''rejected'', req_reviewed_at := Some now,
                   req_reviewed_by := Some (fst super_admin), review_notes := rnotes\<rparr>)
             \<in> set (permission_requests st1) \<and>
           users st1 = users st \<and>
           activity_logs st1 = activity_logs st \<and>
           admin_notifications st1 = admin_notifications st"
proof -
  let ?r' = "r\<lparr>req_status := ''rejected'', req_reviewed_at := Some now,
                 req_reviewed_by := Some (fst super_admin), review_notes := rnotes\<rparr>"
  from assms(2) obtain st1 where
    saved: "AdminPermissionRequest_save (rid, ?r') st = Inr st1"
    by (simp add: AdminPermissionRequest_save_def conflict_triple)
  from saved_row_present[OF saved] assms(1)
  show ?thesis
    by (simp add: reject_request_def saved Let_def AdminActivityLog_save_def)
qed

text \<open>
  C5 fails on the code. Super admin 1 rejects the pending manage_payments request of
  admin 7: the request is saved as rejected with reviewed_at, reviewed_by and the notes,
  then the method raises \<^verbatim>\<open>IntegrityError\<close> at the audit entry; the log and the
  notification table stay empty.
\<close>

theorem reject_request_writes_no_audit_entry:
  "raised (reject_request (1, request_of 7 ''manage_payments'' ''pending'') (1, super_1) ''not now'' 100
       (permission_db [(1, request_of 7 ''manage_payments'' ''pending'')])) = Some IntegrityError \<and>
   permission_requests (result_db
     (reject_request (1, request_of 7 ''manage_payments'' ''pending'') (1, super_1) ''not now'' 100
       (permission_db [(1, request_of 7 ''manage_payments'' ''pending'')]))) =
     [(1, (request_of 7 ''manage_payments'' ''rejected'')\<lparr>req_reviewed_at := Some 100,
            req_reviewed_by := Some 1, review_notes := ''not now''\<rparr>)] \<and>
   activity_logs (result_db
     (reject_request (1, request_of 7 ''manage_payments'' ''pending'') (1, super_1) ''not now'' 100
       (permission_db [(1, request_of 7 ''manage_payments'' ''pending'')]))) = [] \<and>
   admin_notifications (result_db
     (reject_request (1, request_of 7 ''manage_payments'' ''pending'') (1, super_1) ''not now'' 100
       (permission_db [(1, request_of 7 ''manage_payments'' ''pending'')]))) = []"
  by (simp add: reject_request_def AdminPermissionRequest_save_def unique_together_conflict_def
        AdminActivityLog_save_def permission_db_def request_of_def raised_def result_db_def
        Let_def)

lemma conflict_with_member:
  assumes "(k', r') \<in> set rows" and "k' \<noteq> k"
      and "requesting_admin r' = requesting_admin r"
      and "permission_type r' = permission_type r"
      and "req_status r' = req_status r"
  shows "unique_together_conflict rows k r"
  using assms unfolding unique_together_conflict_def list_ex_iff by fastforce

text \<open>
  C10. When an earlier request of the same admin for the same permission already holds
  the terminal status, resolving another request to that status raises IntegrityError from
  the request's \<^verbatim>\<open>save()\<close>. On reject nothing has been written at that point. On
  approve the requesting admin's permission bit has already been set and saved: the
  database left behind differs from the original exactly in that account, while the request
  is still in its old status and no audit entry or notification exists.
\<close>

theorem resolve_duplicate_integrity_error:
  assumes "(rid', earlier) \<in> set (permission_requests st)"
      and "rid' \<noteq> rid"
      and "requesting_admin earlier = requesting_admin r"
      and "permission_type earlier = permission_type r"
  shows "(req_status earlier = ''rejected'' \<longrightarrow>
            reject_request (rid, r) super_admin rnotes now st = Inl (IntegrityError, st))
       \<and> (req_status earlier = ''approved'' \<and> users st (requesting_admin r) = Some adm \<longrightarrow>
            approve_request (rid, r) super_admin now st =
              Inl (IntegrityError,
                   st\<lparr>users := (users st)(requesting_admin r \<mapsto>
                         adm\<lparr>admin_permissions :=
                               (admin_permissions adm)(permission_type r \<mapsto> True)\<rparr>)\<rparr>))"
proof (intro conjI impI)
  assume rej: "req_status earlier = ''rejected''"
  have "unique_together_conflict (permission_requests st) rid
          (r\<lparr>req_status := ''rejected'', req_reviewed_at := Some now,
             req_reviewed_by := Some (fst super_admin), review_notes := rnotes\<rparr>)"
    using assms rej by (intro conflict_with_member[of rid' earlier]) simp_all
  then show "reject_request (rid, r) super_admin rnotes now st = Inl (IntegrityError, st)"
    by (simp add: reject_request_def AdminPermissionRequest_save_def Let_def)
next
  assume app: "req_status earlier = ''approved'' \<and> users st (requesting_admin r) = Some adm"
  have "unique_together_conflict (permission_requests st) rid
          (r\<lparr>req_status := ''approved'', req_reviewed_at := Some now,
             req_reviewed_by := Some (fst super_admin), granted_at := Some now\<rparr>)"
    using assms app by (intro conflict_with_member[of rid' earlier]) simp_all
  with app show "approve_request (rid, r) super_admin now st =
              Inl (IntegrityError,
                   st\<lparr>users := (users st)(requesting_admin r \<mapsto>
                         adm\<lparr>admin_permissions :=
                               (admin_permissions adm)(permission_type r \<mapsto> True)\<rparr>)\<rparr>)"
    by (simp add: approve_request_def AdminPermissionRequest_save_def Let_def)
qed

text \<open>
  Request 2 of admin 7 is resolved while request 1 for the same permission is already
  rejected, respectively approved.
\<close>

theorem resolve_duplicate_integrity_error_witness:
  "raised (reject_request (2, request_of 7 ''manage_payments'' ''pending'') (1, super_1) [] 100
      (permission_db [(1, request_of 7 ''manage_payments'' ''rejected''),
                      (2, request_of 7 ''manage_payments'' ''pending'')])) = Some IntegrityError \<and>
   raised (approve_request (2, request_of 7 ''manage_payments'' ''pending'') (1, super_1) 100
      (permission_db [(1, request_of 7 ''manage_payments'' ''approved''),
                      (2, request_of 7 ''manage_payments'' ''pending'')])) = Some IntegrityError \<and>
   map_option (\<lambda>u. admin_permissions u ''manage_payments'')
     (users (result_db (approve_request (2, request_of 7 ''manage_payments'' ''pending'') (1, super_1) 100
        (permission_db [(1, request_of 7 ''manage_payments'' ''approved''),
                        (2, request_of 7 ''manage_payments'' ''pending'')]))) 7) = Some (Some True) \<and>
   map req_status (map snd (permission_requests (result_db
     (approve_request (2, request_of 7 ''manage_payments'' ''pending'') (1, super_1) 100
        (permission_db [(1, request_of 7 ''manage_payments'' ''approved''),
                        (2, request_of 7 ''manage_payments'' ''pending'')]))))) =
     [''approved'', ''pending'']"
  using resolve_duplicate_integrity_error[where rid' = 1 and rid = 2
      and earlier = "request_of 7 ''manage_payments'' ''rejected''"
      and r = "request_of 7 ''manage_payments'' ''pending''"
      and st = "permission_db [(1, request_of 7 ''manage_payments'' ''rejected''),
                      (2, request_of 7 ''manage_payments'' ''pending'')]"
      and super_admin = "(1, super_1)" and rnotes = "[]" and now = 100]
    resolve_duplicate_integrity_error[where rid' = 1 and rid = 2
      and earlier = "request_of 7 ''manage_payments'' ''approved''"
      and r = "request_of 7 ''manage_payments'' ''pending''"
      and st = "permission_db [(1, request_of 7 ''manage_payments'' ''approved''),
                      (2, request_of 7 ''manage_payments'' ''pending'')]"
      and super_admin = "(1, super_1)" and adm = admin_7 and now = 100]
  by (simp add: permission_db_def request_of_def raised_def result_db_def)

text \<open>
  A key computed by \<open>new_pk\<close> is not in the table.
\<close>

lemma fold_max_init: "(a::nat) \<le> fold max xs a"
proof (induction xs arbitrary: a)
  case Nil
  show ?case by simp
next
  case (Cons x xs)
  have "a \<le> max x a" by simp
  also have "\<dots> \<le> fold max xs (max x a)" by (rule Cons.IH)
  finally show ?case by simp
qed

lemma fold_max_ge: "(k::nat) \<in> set xs \<Longrightarrow> k \<le> fold max xs a"
proof (induction xs arbitrary: a)
  case Nil
  then show ?case by simp
next
  case (Cons x xs)
  show ?case
  proof (cases "k = x")
    case True
    have "k \<le> max x a" using True by simp
    also have "\<dots> \<le> fold max xs (max x a)" by (rule fold_max_init)
    finally show ?thesis by simp
  next
    case False
    with Cons.prems have "k \<in> set xs" by simp
    then have "k \<le> fold max xs (max x a)" by (rule Cons.IH)
    then show ?thesis by simp
  qed
qed

lemma new_pk_fresh: "new_pk rows \<notin> set (map fst rows)"
proof
  assume "new_pk rows \<in> set (map fst rows)"
  then have "new_pk rows \<le> fold max (map fst rows) 0"
    by (rule fold_max_ge)
  then show False by (simp add: new_pk_def)
qed

lemma create_pending:
  assumes "\<not> list_ex (\<lambda>(k, r). requesting_admin r = uid \<and> permission_type r = pt \<and>
                 req_status r = ''pending'') (permission_requests st)"
  shows "AdminPermissionRequest_create uid pt rs js st =
           Inr (st\<lparr>permission_requests := permission_requests st @
                  [(new_pk (permission_requests st),
                    \<lparr>requesting_admin = uid, permission_type = pt, reason = rs,
                     justification = js, req_status = ''pending'', req_reviewed_at = None,
                     req_reviewed_by = None, review_notes = [], granted_at = None\<rparr>)]\<rparr>)"
proof -
  have "\<not> unique_together_conflict (permission_requests st) (new_pk (permission_requests st))
            \<lparr>requesting_admin = uid, permission_type = pt, reason = rs,
             justification = js, req_status = ''pending'', req_reviewed_at = None,
             req_reviewed_by = None, review_notes = [], granted_at = None\<rparr>"
    using assms unfolding unique_together_conflict_def list_ex_iff by auto
  then show ?thesis
    using new_pk_fresh[of "permission_requests st"]
    by (simp add: AdminPermissionRequest_create_def AdminPermissionRequest_save_def)
qed

lemma permission_label_known:
  assumes "pt \<in> set (map fst PERMISSION_TYPES)"
  shows "\<exists>label. permission_label pt = Inr label"
proof -
  from assms have "map_of PERMISSION_TYPES pt \<noteq> None"
    by (simp add: map_of_eq_None_iff)
  then obtain l where "map_of PERMISSION_TYPES pt = Some l"
    by blast
  then show ?thesis by (simp add: permission_label_def)
qed

text \<open>
  C8, as amended. An admin who has passed the gate submits the form, from a request that
  carries its peer address, with all three fields filled and a permission name of
  \<^verbatim>\<open>PERMISSION_TYPES\<close>. If the admin's permission map already has the permission true,
  the answer is the already-granted warning and the database is unchanged. Otherwise, if a
  pending request of this admin for this permission exists, the answer is the
  already-pending warning and the database is unchanged. Otherwise the submission succeeds
  and appends a new pending request, whatever approved or rejected requests for the
  permission exist and without changing any account. So a submission after a rejected
  request succeeds, while after an approved request the permission is held and the first
  case applies.
\<close>

theorem submit_permission_request:
  assumes "request_user st req = Some (uid, u)"
      and "is_admin_user (Some (uid, u))"
      and "http_method req = ''POST''"
      and "POST req ''permission_type'' = Some pt"
      and "POST req ''reason'' = Some rs"
      and "POST req ''justification'' = Some js"
      and "rs \<noteq> []" and "js \<noteq> []"
      and "pt \<in> set (map fst PERMISSION_TYPES)"
      and "remote_addr req = Some addr"
  shows "(admin_permissions u pt = Some True \<longrightarrow>
           normal_admin_request_permission req st = Inr (Already_granted, st))
       \<and> (admin_permissions u pt \<noteq> Some True \<and>
          list_ex (\<lambda>(k, r). requesting_admin r = uid \<and> permission_type r = pt \<and>
                     req_status r = ''pending'') (permission_requests st) \<longrightarrow>
           normal_admin_request_permission req st = Inr (Already_pending, st))
       \<and> (admin_permissions u pt \<noteq> Some True \<and>
          \<not> list_ex (\<lambda>(k, r). requesting_admin r = uid \<and> permission_type r = pt \<and>
                       req_status r = ''pending'') (permission_requests st) \<longrightarrow>
           (\<exists>st'. normal_admin_request_permission req st = Inr (Request_submitted, st') \<and>
              permission_requests st' = permission_requests st @
                [(new_pk (permission_requests st),
                  \<lparr>requesting_admin = uid, permission_type = pt, reason = rs,
                   justification = js, req_status = ''pending'', req_reviewed_at = None,
                   req_reviewed_by = None, review_notes = [], granted_at = None\<rparr>)] \<and>
              users st' = users st))"
proof -
  from assms(2) have active: "is_admin_active u"
    by (auto simp: is_admin_user_def is_normal_admin_def is_super_admin_def)
  then have perms: "dict_get (get_admin_permissions u) pt False \<longleftrightarrow> admin_permissions u pt = Some True"
    by (simp add: get_admin_permissions_def dict_get_def split: option.split)
  from assms(9) obtain label where label: "permission_label pt = Inr label"
    using permission_label_known by blast
  from assms(9) have pt: "pt \<noteq> []"
    by (auto simp: PERMISSION_TYPES_def)
  note head = assms(1,2,3,4,5,6,7,8,10) pt label perms
  show ?thesis
  proof (intro conjI impI)
    assume "admin_permissions u pt = Some True"
    with head show "normal_admin_request_permission req st = Inr (Already_granted, st)"
      by (simp add: normal_admin_request_permission_def)
  next
    assume "admin_permissions u pt \<noteq> Some True \<and>
          list_ex (\<lambda>(k, r). requesting_admin r = uid \<and> permission_type r = pt \<and>
                     req_status r = ''pending'') (permission_requests st)"
    with head show "normal_admin_request_permission req st = Inr (Already_pending, st)"
      by (simp add: normal_admin_request_permission_def)
  next
    assume a: "admin_permissions u pt \<noteq> Some True \<and>
          \<not> list_ex (\<lambda>(k, r). requesting_admin r = uid \<and> permission_type r = pt \<and>
                       req_status r = ''pending'') (permission_requests st)"
    then have created: "AdminPermissionRequest_create uid pt rs js st =
           Inr (st\<lparr>permission_requests := permission_requests st @
                  [(new_pk (permission_requests st),
                    \<lparr>requesting_admin = uid, permission_type = pt, reason = rs,
                     justification = js, req_status = ''pending'', req_reviewed_at = None,
                     req_reviewed_by = None, review_notes = [], granted_at = None\<rparr>)]\<rparr>)"
      by (intro create_pending) simp
    from a head show "\<exists>st'. normal_admin_request_permission req st = Inr (Request_submitted, st') \<and>
              permission_requests st' = permission_requests st @
                [(new_pk (permission_requests st),
                  \<lparr>requesting_admin = uid, permission_type = pt, reason = rs,
                   justification = js, req_status = ''pending'', req_reviewed_at = None,
                   req_reviewed_by = None, review_notes = [], granted_at = None\<rparr>)] \<and>
              users st' = users st"
      by (simp add: normal_admin_request_permission_def created log_admin_activity_def
            AdminActivityLog_save_def Let_def)
  qed
qed

text \<open>
  Admin 7 asks for manage_payments: while holding it, while a request is pending, and
  after request 5 was rejected.
\<close>

theorem submit_permission_request_witness:
  "normal_admin_request_permission payments_form
     ((permission_db [])\<lparr>users := [1 \<mapsto> super_1,
         7 \<mapsto> admin_7\<lparr>admin_permissions := [''manage_payments'' \<mapsto> True]\<rparr>]\<rparr>) =
     Inr (Already_granted,
          (permission_db [])\<lparr>users := [1 \<mapsto> super_1,
             7 \<mapsto> admin_7\<lparr>admin_permissions := [''manage_payments'' \<mapsto> True]\<rparr>]\<rparr>)
   \<and> normal_admin_request_permission payments_form
         (permission_db [(1, request_of 7 ''manage_payments'' ''pending'')]) =
       Inr (Already_pending, permission_db [(1, request_of 7 ''manage_payments'' ''pending'')])
   \<and> (\<exists>st'. normal_admin_request_permission payments_form
                (permission_db [(5, request_of 7 ''manage_payments'' ''rejected'')]) =
              Inr (Request_submitted, st') \<and>
            permission_requests st' =
              [(5, request_of 7 ''manage_payments'' ''rejected''),
               (6, request_of 7 ''manage_payments'' ''pending'')] \<and>
            users st' = users (permission_db [(5, request_of 7 ''manage_payments'' ''rejected'')]))"
  using submit_permission_request[where req = payments_form and uid = 7
      and u = "admin_7\<lparr>admin_permissions := [''manage_payments'' \<mapsto> True]\<rparr>"
      and st = "(permission_db [])\<lparr>users := [1 \<mapsto> super_1,
         7 \<mapsto> admin_7\<lparr>admin_permissions := [''manage_payments'' \<mapsto> True]\<rparr>]\<rparr>"
      and pt = "''manage_payments''" and rs = "''X''" and js = "''Y''"]
    submit_permission_request[where req = payments_form and uid = 7 and u = admin_7
      and st = "permission_db [(1, request_of 7 ''manage_payments'' ''pending'')]"
      and pt = "''manage_payments''" and rs = "''X''" and js = "''Y''"]
    submit_permission_request[where req = payments_form and uid = 7 and u = admin_7
      and st = "permission_db [(5, request_of 7 ''manage_payments'' ''rejected'')]"
      and pt = "''manage_payments''" and rs = "''X''" and js = "''Y''"]
  by (simp add: payments_form_def permission_db_def request_of_def request_user_def
        is_admin_user_def is_normal_admin_def admin_7_def PERMISSION_TYPES_def new_pk_def)

text \<open>A held permission blocks the submission, whatever the request table holds.\<close>

lemma granted_blocks_submission:
  assumes "users st 7 = Some u" and "is_normal_admin u"
      and "admin_permissions u ''manage_payments'' = Some True"
  shows "normal_admin_request_permission payments_form st = Inr (Already_granted, st)"
proof -
  from assms(2) have "is_admin_active u" by (simp add: is_normal_admin_def)
  with assms show ?thesis
    by (simp add: normal_admin_request_permission_def request_user_def payments_form_def
          is_admin_user_def get_admin_permissions_def dict_get_def permission_label_def
          PERMISSION_TYPES_def)
qed

text \<open>
  C8 as stated fails for the approved outcome. Super admin 1 approves the pending request
  of admin 7: the permission bit and the approved status are saved (the method then raises
  at its audit entry, which has no address). The request is resolved as approved, and a
  new submission for the same permission is refused as already granted; no request is
  created.
\<close>

theorem resubmit_after_approval_counterexample:
  "raised (approve_request (1, request_of 7 ''manage_payments'' ''pending'') (1, super_1) 100
     (permission_db [(1, request_of 7 ''manage_payments'' ''pending'')])) = Some IntegrityError \<and>
   map (\<lambda>row. req_status (snd row)) (permission_requests after_approval_db) = [''approved''] \<and>
   normal_admin_request_permission payments_form after_approval_db =
     Inr (Already_granted, after_approval_db)"
proof -
  have ok: "raised (approve_request (1, request_of 7 ''manage_payments'' ''pending'') (1, super_1) 100
     (permission_db [(1, request_of 7 ''manage_payments'' ''pending'')])) = Some IntegrityError"
    and rows: "map (\<lambda>row. req_status (snd row)) (permission_requests after_approval_db) = [''approved'']"
    and usr: "users after_approval_db 7 =
               Some (admin_7\<lparr>admin_permissions := [''manage_payments'' \<mapsto> True]\<rparr>)"
    by (simp_all add: after_approval_db_def approve_request_def AdminPermissionRequest_save_def
          unique_together_conflict_def AdminActivityLog_save_def
          permission_db_def request_of_def raised_def result_db_def Let_def admin_7_def)
  have "normal_admin_request_permission payments_form after_approval_db =
          Inr (Already_granted, after_approval_db)"
    using usr by (rule granted_blocks_submission) (simp_all add: is_normal_admin_def admin_7_def)
  with ok rows show ?thesis by simp
qed

section \<open>Writers of the verified flag: results\<close>

text \<open>
  C9, as amended. The verified flag is not written by approval alone. A registration
  whose form is valid (the form admits the roles broker and buyer only) stores the new
  account verified and active with the verification date set, and a registration whose
  form is invalid, in particular one with the role agent, stores nothing. The verify action
  of \<^verbatim>\<open>normal_admin_agents\<close>, on a request that carries its peer address, sets the flag
  and the verification date of an unverified agent or broker; and the admin action
  \<^verbatim>\<open>verify_agents\<close> sets the flag, the active flag and the date of every selected
  unverified agent. None of the three touches an application.
\<close>

theorem verified_without_approval:
  "(form_is_valid user \<longrightarrow>
      register (Some user) now st =
        (Registration_successful,
         insert_user (user\<lparr>is_active := True, is_verified := True,
                            verification_date := Some now\<rparr>) st) \<and>
      (\<exists>u'. users (snd (register (Some user) now st)) (users_seq st) = Some u' \<and>
         is_verified u' \<and> is_active u' \<and> verification_date u' = Some now) \<and>
      applications (snd (register (Some user) now st)) = applications st)
   \<and> (user_type user = ''agent'' \<longrightarrow> register (Some user) now st = (Render_form, st))
   \<and> (users st k = Some u \<and> (user_type u = ''agent'' \<or> user_type u = ''broker'') \<and>
        \<not> is_verified u \<and> remote_addr req = Some addr \<longrightarrow>
        (\<exists>st' u'. normal_admin_agents req admin k ''verify'' now st = Inr (Agent_verified, st') \<and>
           users st' k = Some u' \<and> is_verified u' \<and> verification_date u' = Some now \<and>
           applications st' = applications st))
   \<and> (users st k = Some u \<and> user_type u = ''agent'' \<and> \<not> is_verified u \<and> k \<in> set ids \<longrightarrow>
        (\<exists>u'. users (snd (verify_agents now ids st)) k = Some u' \<and>
           is_verified u' \<and> is_active u' \<and> verification_date u' = Some now \<and>
           applications (snd (verify_agents now ids st)) = applications st))"
proof (intro conjI impI)
  assume valid: "form_is_valid user"
  then have role: "user_type user \<noteq> ''agent''"
    by (auto simp: form_is_valid_def REGISTRATION_USER_TYPES_def)
  with valid show reg: "register (Some user) now st =
        (Registration_successful,
         insert_user (user\<lparr>is_active := True, is_verified := True,
                            verification_date := Some now\<rparr>) st)"
    by (simp add: register_def)
  show "\<exists>u'. users (snd (register (Some user) now st)) (users_seq st) = Some u' \<and>
         is_verified u' \<and> is_active u' \<and> verification_date u' = Some now"
    unfolding reg by (simp add: insert_user_def)
  show "applications (snd (register (Some user) now st)) = applications st"
    unfolding reg by (simp add: insert_user_def)
next
  assume "user_type user = ''agent''"
  then show "register (Some user) now st = (Render_form, st)"
    by (simp add: register_def form_is_valid_def REGISTRATION_USER_TYPES_def)
next
  assume "users st k = Some u \<and> (user_type u = ''agent'' \<or> user_type u = ''broker'') \<and>
        \<not> is_verified u \<and> remote_addr req = Some addr"
  then show "\<exists>st' u'. normal_admin_agents req admin k ''verify'' now st = Inr (Agent_verified, st') \<and>
           users st' k = Some u' \<and> is_verified u' \<and> verification_date u' = Some now \<and>
           applications st' = applications st"
    by (auto simp add: normal_admin_agents_def log_admin_activity_def AdminActivityLog_save_def
          Let_def)
next
  assume "users st k = Some u \<and> user_type u = ''agent'' \<and> \<not> is_verified u \<and> k \<in> set ids"
  then show "\<exists>u'. users (snd (verify_agents now ids st)) k = Some u' \<and>
           is_verified u' \<and> is_active u' \<and> verification_date u' = Some now \<and>
           applications (snd (verify_agents now ids st)) = applications st"
    by (simp add: verify_agents_def Let_def)
qed

text \<open>
  A buyer registers and is stored verified; a registration as agent is turned down by the
  form; agent 42, whose application is still pending, is verified by either admin action
  while the application stays pending.
\<close>

theorem verified_without_approval_witness:
  "(\<exists>u'. users (snd (register (Some new_buyer) 100 (review_db agent_42 ''pending''))) 43 = Some u' \<and>
         is_verified u' \<and> is_active u' \<and> verification_date u' = Some 100)
   \<and> register (Some agent_42) 100 (review_db agent_42 ''pending'') =
       (Render_form, review_db agent_42 ''pending'')
   \<and> (\<exists>st' u'. normal_admin_agents admin_request 7 42 ''verify'' 100
                   (review_db agent_42 ''pending'') = Inr (Agent_verified, st') \<and>
           users st' 42 = Some u' \<and> is_verified u' \<and> verification_date u' = Some 100 \<and>
           applications st' = applications (review_db agent_42 ''pending''))
   \<and> (\<exists>u'. users (snd (verify_agents 100 [42] (review_db agent_42 ''pending''))) 42 = Some u' \<and>
           is_verified u' \<and> is_active u' \<and> verification_date u' = Some 100 \<and>
           applications (snd (verify_agents 100 [42] (review_db agent_42 ''pending''))) =
             applications (review_db agent_42 ''pending''))"
proof -
  have st: "users (review_db agent_42 ''pending'') 42 = Some agent_42"
    and seq: "users_seq (review_db agent_42 ''pending'') = 43"
    by (simp_all add: review_db_def)
  have agent: "user_type agent_42 = ''agent''" "\<not> is_verified agent_42"
    by (simp_all add: agent_42_def)
  have buyer: "form_is_valid new_buyer"
    by (simp add: form_is_valid_def new_buyer_def REGISTRATION_USER_TYPES_def)
  have addr: "remote_addr admin_request = Some ''10.0.0.7''"
    by (simp add: admin_request_def)
  from verified_without_approval[where user = new_buyer and now = 100
      and st = "review_db agent_42 ''pending''" and k = 42 and u = agent_42
      and req = admin_request and admin = 7 and ids = "[42]" and addr = "''10.0.0.7''"]
    verified_without_approval[where user = agent_42 and now = 100
      and st = "review_db agent_42 ''pending''" and k = 42 and u = agent_42
      and req = admin_request and admin = 7 and ids = "[42]" and addr = "''10.0.0.7''"]
  show ?thesis
    unfolding seq using st agent buyer addr by auto
qed

text \<open>
  C9 as stated fails: registering a buyer stores the account with verified true, and no
  application is approved.
\<close>

theorem registration_verifies_counterexample:
  "is_verified new_buyer = False \<and>
   fst (register (Some new_buyer) 100 (review_db agent_42 ''pending'')) = Registration_successful \<and>
   users (snd (register (Some new_buyer) 100 (review_db agent_42 ''pending''))) 43 =
     Some (new_buyer\<lparr>is_active := True, is_verified := True, verification_date := Some 100\<rparr>) \<and>
   applications (snd (register (Some new_buyer) 100 (review_db agent_42 ''pending''))) 1 =
     Some (application_of 42 ''pending'')"
  by (simp add: register_def insert_user_def new_buyer_def review_db_def form_is_valid_def
        REGISTRATION_USER_TYPES_def)

end
